theory Spec2Isabelle
  imports Complex_Main
begin

section \<open>Data model\<close>

text \<open>
  The modules \<^verbatim>\<open>algebra.py\<close> and \<^verbatim>\<open>statistics.py\<close> work on plain Python lists of
  numbers: \<^verbatim>\<open>Vector = List[float]\<close>, \<^verbatim>\<open>Matrix = List[List[float]]\<close>.
  Python's \<^verbatim>\<open>+\<close>, \<^verbatim>\<open>-\<close> and \<^verbatim>\<open>*\<close> act on whatever the lists hold, so \<^verbatim>\<open>add\<close>,
  \<^verbatim>\<open>subtract\<close>, \<^verbatim>\<open>dot\<close> and \<^verbatim>\<open>sum\<close> are generic in the element type. Two element
  types are used. The type \<open>double\<close> below holds the values of a Python float (IEEE 754
  binary64), the element type that \<^verbatim>\<open>Vector\<close> declares, with its rounding: the laws
  about computed values are stated on it. The type \<open>real\<close> is exact arithmetic; it
  stands for the scalar where a statement is about lengths, indices or the formula a
  function evaluates, which do not depend on rounding, and where a law is stated for
  exact values.

  Every exception the code can raise is a value: a function that can raise returns
  \<open>py_error + 'a\<close>, with \<open>Inl\<close> carrying the exception. An \<^verbatim>\<open>assert\<close> that fails
  carries its message.
\<close>

type_synonym vector = "real list"
type_synonym matrix = "real list list"

datatype py_error =
    AssertionError string
  | ZeroDivisionError
  | IndexError
  | ValueError

section \<open>Python floats\<close>

text \<open>
  A Python float is an IEEE 754 binary64 number. Its values are modelled as such: a
  finite value is the real number it denotes, and there are two infinities and NaN.
  The two zeros are one value here: they compare equal, and no operation below tells
  them apart. A finite \<open>Finite x\<close> is a float only if \<open>x\<close> is representable, which
  \<open>is_double\<close> says: rounding leaves it as it is.

  \<open>rnd\<close> is the rounding of every arithmetic operation: to the nearest
  representable number, a tie going to the even significand. The significand has 53
  bits; the exponent of the binade is at least \<open>-1022\<close> (below it the spacing stays
  \<open>2 powi (-1074)\<close>: subnormal numbers and underflow to zero); a result of magnitude
  \<open>2 ^ 1024\<close> or more is an infinity.
\<close>

datatype double = Finite real | PInf | NInf | NaN

definition round_half_even :: "real \<Rightarrow> int" where
  "round_half_even x =
     (let f = \<lfloor>x\<rfloor>; d = x - of_int f
      in if d < 1 / 2 then f else if 1 / 2 < d then f + 1 else if even f then f else f + 1)"

definition binade :: "real \<Rightarrow> int" where
  "binade x = max \<lfloor>log 2 \<bar>x\<bar>\<rfloor> (- 1022)"

definition rnd :: "real \<Rightarrow> double" where
  "rnd x =
     (if x = 0 then Finite 0
      else let u = 2 powi (binade x - 52);
               r = of_int (round_half_even (\<bar>x\<bar> / u)) * u
           in if 2 ^ 1024 \<le> r then (if 0 < x then PInf else NInf)
              else Finite (if 0 < x then r else - r))"

definition is_double :: "double \<Rightarrow> bool" where
  "is_double d = (case d of Finite x \<Rightarrow> rnd x = Finite x | _ \<Rightarrow> True)"

text \<open>
  \<^verbatim>\<open>x + y\<close>, \<^verbatim>\<open>x - y\<close> and \<^verbatim>\<open>x * y\<close> on floats never raise: NaN propagates, an
  undefined combination of infinities (or of an infinity and zero) is NaN, and a finite
  result is rounded.
\<close>

instantiation double :: "{zero, plus, minus, times}"
begin

definition zero_double :: double where
  "zero_double = Finite 0"

fun plus_double :: "double \<Rightarrow> double \<Rightarrow> double" where
  "plus_double NaN _ = NaN"
| "plus_double _ NaN = NaN"
| "plus_double PInf NInf = NaN"
| "plus_double NInf PInf = NaN"
| "plus_double PInf _ = PInf"
| "plus_double NInf _ = NInf"
| "plus_double _ PInf = PInf"
| "plus_double _ NInf = NInf"
| "plus_double (Finite a) (Finite b) = rnd (a + b)"

fun minus_double :: "double \<Rightarrow> double \<Rightarrow> double" where
  "minus_double NaN _ = NaN"
| "minus_double _ NaN = NaN"
| "minus_double PInf PInf = NaN"
| "minus_double NInf NInf = NaN"
| "minus_double PInf _ = PInf"
| "minus_double NInf _ = NInf"
| "minus_double _ PInf = NInf"
| "minus_double _ NInf = PInf"
| "minus_double (Finite a) (Finite b) = rnd (a - b)"

fun times_double :: "double \<Rightarrow> double \<Rightarrow> double" where
  "times_double NaN _ = NaN"
| "times_double _ NaN = NaN"
| "times_double (Finite a) (Finite b) = rnd (a * b)"
| "times_double (Finite a) PInf = (if a = 0 then NaN else if 0 < a then PInf else NInf)"
| "times_double (Finite a) NInf = (if a = 0 then NaN else if 0 < a then NInf else PInf)"
| "times_double PInf (Finite b) = (if b = 0 then NaN else if 0 < b then PInf else NInf)"
| "times_double NInf (Finite b) = (if b = 0 then NaN else if 0 < b then NInf else PInf)"
| "times_double PInf PInf = PInf"
| "times_double PInf NInf = NInf"
| "times_double NInf PInf = NInf"
| "times_double NInf NInf = PInf"

instance ..

end

text \<open>The addition \<^verbatim>\<open>x + y\<close> of two finite floats is exact: nothing is rounded away.\<close>

definition exact_sum :: "double \<Rightarrow> double \<Rightarrow> bool" where
  "exact_sum x y =
     (case (x, y) of (Finite a, Finite b) \<Rightarrow> rnd (a + b) = Finite (a + b) | _ \<Rightarrow> False)"


subsection \<open>Python built-ins used by the modules\<close>

text \<open>
  \<^verbatim>\<open>sum(it)\<close>: starts at 0 and adds the items from left to right. (On floats this is
  what CPython does up to version 3.11; later versions add a compensation term.)
\<close>

definition py_sum :: "'a::{zero,plus} list \<Rightarrow> 'a" where
  "py_sum xs = foldl (+) 0 xs"

text \<open>\<^verbatim>\<open>a / b\<close>: true division, raising on a zero divisor.\<close>

definition py_truediv :: "real \<Rightarrow> real \<Rightarrow> py_error + real" where
  "py_truediv a b = (if b = 0 then Inl ZeroDivisionError else Inr (a / b))"

text \<open>
  \<^verbatim>\<open>xs[i]\<close>: an index below zero is taken from the end of the list; an index that is
  still outside the list after that raises \<^verbatim>\<open>IndexError\<close>.
\<close>

definition py_index :: "'a list \<Rightarrow> int \<Rightarrow> py_error + 'a" where
  "py_index xs i =
     (if 0 \<le> i \<and> i < int (length xs) then Inr (xs ! nat i)
      else if i < 0 \<and> - int (length xs) \<le> i then Inr (xs ! nat (int (length xs) + i))
      else Inl IndexError)"



section \<open>algebra.py\<close>

definition add :: "'a::plus list \<Rightarrow> 'a list \<Rightarrow> py_error + 'a list" where
  "add v w =
     (if length v = length w then Inr (map (\<lambda>(v_item, w_item). v_item + w_item) (zip v w))
      else Inl (AssertionError ''both vectors must have the same length''))"

definition subtract :: "'a::minus list \<Rightarrow> 'a list \<Rightarrow> py_error + 'a list" where
  "subtract v w =
     (if length v = length w then Inr (map (\<lambda>(v_item, w_item). v_item - w_item) (zip v w))
      else Inl (AssertionError ''both vectors must have the same length''))"

text \<open>
  \<^verbatim>\<open>vector_sum\<close>: the two assertions run first, so every \<^verbatim>\<open>vec[i]\<close> of the
  comprehension reads inside \<^verbatim>\<open>vec\<close> and is written with \<open>!\<close>.
\<close>

definition vector_sum :: "vector list \<Rightarrow> py_error + vector" where
  "vector_sum vectors =
     (if vectors = [] then Inl (AssertionError ''no vectors provided'')
      else let num_elements = length (vectors ! 0) in
        if \<not> list_all (\<lambda>v. length v = num_elements) vectors
        then Inl (AssertionError ''vectors must be the same length'')
        else Inr (map (\<lambda>i. py_sum (map (\<lambda>vec. vec ! i) vectors)) [0..<num_elements]))"

definition scalar_multiply :: "real \<Rightarrow> vector \<Rightarrow> vector" where
  "scalar_multiply s v = map (\<lambda>v_item. s * v_item) v"

text \<open>
  \<^verbatim>\<open>vector_mean\<close>: Python evaluates the arguments of the call from left to right, so
  \<^verbatim>\<open>1/n\<close> is computed (and raises on \<^verbatim>\<open>n = 0\<close>) before \<^verbatim>\<open>vector_sum\<close> runs.
\<close>

definition vector_mean :: "vector list \<Rightarrow> py_error + vector" where
  "vector_mean vectors =
     (let n = length vectors in
      case py_truediv 1 (real n) of
        Inl e \<Rightarrow> Inl e
      | Inr s \<Rightarrow> (case vector_sum vectors of
                   Inl e \<Rightarrow> Inl e
                 | Inr vsum \<Rightarrow> Inr (scalar_multiply s vsum)))"





definition shape :: "matrix \<Rightarrow> nat \<times> nat" where
  "shape A = (let num_rows = length A; num_cols = (if A \<noteq> [] then length (A ! 0) else 0)
              in (num_rows, num_cols))"

definition get_row :: "matrix \<Rightarrow> int \<Rightarrow> py_error + vector" where
  "get_row A i = py_index A i"

text \<open>
  \<^verbatim>\<open>get_column\<close>: the comprehension visits the rows in order and stops at the first
  row in which \<^verbatim>\<open>A_i[j]\<close> raises.
\<close>

fun get_column :: "matrix \<Rightarrow> int \<Rightarrow> py_error + vector" where
  "get_column [] j = Inr []"
| "get_column (A_i # rest) j =
     (case py_index A_i j of
        Inl e \<Rightarrow> Inl e
      | Inr x \<Rightarrow> (case get_column rest j of Inl e \<Rightarrow> Inl e | Inr col \<Rightarrow> Inr (x # col)))"

section \<open>statistics.py\<close>

subsection \<open>More built-ins\<close>




text \<open>\<^verbatim>\<open>max(it)\<close>: raises \<^verbatim>\<open>ValueError\<close> on an empty iterable.\<close>

fun py_max :: "nat list \<Rightarrow> py_error + nat" where
  "py_max [] = Inl ValueError"
| "py_max (x # xs) = Inr (foldl max x xs)"

text \<open>
  \<^verbatim>\<open>Counter(x)\<close>: a dictionary from each distinct item to its number of occurrences.
  A dictionary keeps its keys in the order of their first insertion, and \<^verbatim>\<open>items()\<close>
  and \<^verbatim>\<open>values()\<close> follow that order, so the counter is an association list.
\<close>

fun counter_incr :: "('a \<times> nat) list \<Rightarrow> 'a \<Rightarrow> ('a \<times> nat) list" where
  "counter_incr [] k = [(k, 1)]"
| "counter_incr ((k', c) # rest) k =
     (if k' = k then (k', c + 1) # rest else (k', c) # counter_incr rest k)"

definition Counter :: "'a list \<Rightarrow> ('a \<times> nat) list" where
  "Counter x = foldl counter_incr [] x"

subsection \<open>The functions of the module\<close>






definition mode :: "real list \<Rightarrow> py_error + real list" where
  "mode x =
     (let counts = Counter x in
      case py_max (map snd counts) of
        Inl e \<Rightarrow> Inl e
      | Inr max_count \<Rightarrow> Inr (map fst (filter (\<lambda>(x_i, count). count = max_count) counts)))"

section \<open>Properties of algebra.py\<close>

lemma py_sum_sum_list: "py_sum xs = sum_list xs" for xs :: "real list"
proof -
  have "foldl (+) a xs = a + sum_list xs" for a :: real
    by (induction xs arbitrary: a) simp_all
  then show ?thesis by (simp add: py_sum_def)
qed

subsection \<open>Rounding\<close>


lemma round_half_even_of_int [simp]: "round_half_even (of_int m) = m"
  by (simp add: round_half_even_def)


lemma two_powr_of_int: "2 powr real_of_int e = (2::real) powi e"
  by (rule powr_real_of_int') simp_all

lemma binade_normal:
  assumes "2 powi e \<le> \<bar>x\<bar>" and "\<bar>x\<bar> < 2 powi (e + 1)" and "- 1022 \<le> e"
  shows "binade x = e"
proof -
  have "(0::real) < 2 powi e" by simp
  with assms(1) have pos: "0 < \<bar>x\<bar>" by linarith
  have "\<lfloor>log 2 \<bar>x\<bar>\<rfloor> = e"
    using assms(1,2) floor_log_eq_powr_iff [of "\<bar>x\<bar>" 2 e] pos
    unfolding two_powr_of_int by simp
  with assms(3) show ?thesis by (simp add: binade_def)
qed


lemma rnd_zero [simp]: "rnd 0 = Finite 0"
  by (simp add: rnd_def)


lemma round_half_even_le: "x \<le> of_int n \<Longrightarrow> round_half_even x \<le> n"
proof -
  assume h: "x \<le> of_int n"
  then have f: "\<lfloor>x\<rfloor> \<le> n" by linarith
  show ?thesis
  proof (cases "\<lfloor>x\<rfloor> = n")
    case True
    with h have "x - of_int \<lfloor>x\<rfloor> \<le> 0" by simp
    then have "x - of_int \<lfloor>x\<rfloor> < 1 / 2" by linarith
    with True show ?thesis by (simp add: round_half_even_def Let_def)
  next
    case False
    with f have "\<lfloor>x\<rfloor> + 1 \<le> n" by linarith
    with f show ?thesis by (auto simp add: round_half_even_def Let_def)
  qed
qed

lemma rnd_eval:
  assumes "x \<noteq> 0" and "binade x = e"
    and "round_half_even (\<bar>x\<bar> / 2 powi (e - 52)) = m"
    and "of_int m * 2 powi (e - 52) < (2::real) ^ 1024"
  shows "rnd x = Finite (if 0 < x then of_int m * 2 powi (e - 52) else - (of_int m * 2 powi (e - 52)))"
proof -
  from assms(4) have "\<not> (2::real) ^ 1024 \<le> of_int m * 2 powi (e - 52)"
    by (simp only: not_le)
  with assms(1) show ?thesis
    unfolding rnd_def Let_def assms(2) assms(3) by (simp only: if_False)
qed

lemma rnd_normal:
  assumes "2 powi e \<le> \<bar>x\<bar>" and "\<bar>x\<bar> < 2 powi (e + 1)" and "- 1022 \<le> e" and "e < 1023"
    and "round_half_even (\<bar>x\<bar> / 2 powi (e - 52)) = m"
  shows "rnd x = Finite (if 0 < x then of_int m * 2 powi (e - 52) else - (of_int m * 2 powi (e - 52)))"
proof -
  have "(0::real) < 2 powi e" by simp
  with assms(1) have "0 < \<bar>x\<bar>" by linarith
  then have nz: "x \<noteq> 0" by simp
  have b: "binade x = e" using assms(1-3) by (rule binade_normal)
  have "\<bar>x\<bar> / 2 powi (e - 52) \<le> 2 powi (e + 1) / 2 powi (e - 52)"
    using assms(2) by (simp add: divide_right_mono)
  also have "\<dots> = 2 powi 53"
    by (simp add: power_int_diff [symmetric])
  also have "\<dots> = of_int (2 ^ 53)" by simp
  finally have "m \<le> 2 ^ 53"
    using round_half_even_le [of "\<bar>x\<bar> / 2 powi (e - 52)" "2 ^ 53"] assms(5) by simp
  then have "real_of_int m \<le> real_of_int (2 ^ 53)"
    by (simp only: of_int_le_iff)
  then have "real_of_int m \<le> 2 powi 53" by simp
  then have "of_int m * 2 powi (e - 52) \<le> (2::real) powi 53 * 2 powi (e - 52)"
    by (rule mult_right_mono) simp
  also have "\<dots> = 2 powi (53 + (e - 52))"
    by (rule power_int_add [symmetric]) simp
  also have "\<dots> = 2 powi (e + 1)"
  proof -
    have "53 + (e - 52) = e + 1" by linarith
    then show ?thesis by (rule arg_cong)
  qed
  also have "\<dots> \<le> 2 powi 1023"
    using assms(4) by (intro power_int_increasing) simp_all
  also have "\<dots> < (2::real) ^ 1024" by simp
  finally have "of_int m * 2 powi (e - 52) < (2::real) ^ 1024" .
  with nz b assms(5) show ?thesis by (rule rnd_eval)
qed

text \<open>
  The floats \<^verbatim>\<open>0.1\<close>, \<^verbatim>\<open>0.2\<close> and their sum and difference, as the fractions they
  denote, and the small integers used below.
\<close>

lemma r01: "rnd (3602879701896397 / 36028797018963968) = Finite (3602879701896397 / 36028797018963968)"
  by (subst rnd_normal [where e = "- 4" and m = 7205759403792794])
     (simp_all add: power_int_minus round_half_even_def Let_def)

lemma r03: "rnd (3602879701896397 / 36028797018963968 + 3602879701896397 / 18014398509481984)
   = Finite (5404319552844596 / 18014398509481984)"
  by (subst rnd_normal [where e = "- 2" and m = 5404319552844596])
     (simp_all add: power_int_minus round_half_even_def Let_def)

lemma r02: "rnd (3602879701896397 / 18014398509481984) = Finite (3602879701896397 / 18014398509481984)"
  by (subst rnd_normal [where e = "- 3" and m = 7205759403792794])
     (simp_all add: power_int_minus round_half_even_def Let_def)

lemma r04: "rnd (5404319552844596 / 18014398509481984 - 3602879701896397 / 18014398509481984)
   = Finite (1801439850948199 / 18014398509481984)"
  by (subst rnd_normal [where e = "- 4" and m = 7205759403792796])
     (simp_all add: power_int_minus round_half_even_def Let_def)

lemma s03:
  "Finite (3602879701896397 / 36028797018963968) + Finite (3602879701896397 / 18014398509481984)
     = Finite (5404319552844596 / 18014398509481984)"
  by (simp only: plus_double.simps r03)

lemma s04:
  "Finite (5404319552844596 / 18014398509481984) - Finite (3602879701896397 / 18014398509481984)
     = Finite (1801439850948199 / 18014398509481984)"
  by (simp only: minus_double.simps r04)

lemma rnd_1: "rnd 1 = Finite 1"
  by (subst rnd_normal [where e = 0 and m = 4503599627370496])
     (simp_all add: power_int_minus round_half_even_def Let_def)

lemma rnd_2: "rnd 2 = Finite 2"
  by (subst rnd_normal [where e = 1 and m = 4503599627370496])
     (simp_all add: power_int_minus round_half_even_def Let_def)

lemma rnd_3: "rnd 3 = Finite 3"
  by (subst rnd_normal [where e = 1 and m = 6755399441055744])
     (simp_all add: power_int_minus round_half_even_def Let_def)

lemma roundtrip_elem:
  assumes "is_double x" and "exact_sum x y"
  shows "(x + y) - y = x"
proof -
  from assms(2) obtain a b where x: "x = Finite a" and y: "y = Finite b"
    and s: "rnd (a + b) = Finite (a + b)"
    by (auto simp add: exact_sum_def split: double.splits)
  from assms(1) x have "rnd a = Finite a" by (simp add: is_double_def)
  with x y s show ?thesis by simp
qed

subsection \<open>Laws of the vector operations\<close>

text \<open>
  Claim C6, as stated, fails on floats: \<^verbatim>\<open>0.1 + 0.2\<close> is rounded to
  \<^verbatim>\<open>0.30000000000000004\<close>, and subtracting \<^verbatim>\<open>0.2\<close> again gives
  \<^verbatim>\<open>0.10000000000000003\<close>, so \<^verbatim>\<open>subtract(add([0.1], [0.2]), [0.2])\<close> is not
  \<^verbatim>\<open>[0.1]\<close>.
\<close>

theorem roundtrip_counterexample:
  "is_double (Finite (3602879701896397 / 36028797018963968)) \<and>
   is_double (Finite (3602879701896397 / 18014398509481984)) \<and>
   add [Finite (3602879701896397 / 36028797018963968)] [Finite (3602879701896397 / 18014398509481984)]
     = Inr [Finite (5404319552844596 / 18014398509481984)] \<and>
   subtract [Finite (5404319552844596 / 18014398509481984)] [Finite (3602879701896397 / 18014398509481984)]
     = Inr [Finite (1801439850948199 / 18014398509481984)] \<and>
   Finite (1801439850948199 / 18014398509481984) \<noteq> Finite (3602879701896397 / 36028797018963968)"
proof (intro conjI)
  show "is_double (Finite (3602879701896397 / 36028797018963968))"
    unfolding is_double_def by (simp only: double.case r01)
  show "is_double (Finite (3602879701896397 / 18014398509481984))"
    unfolding is_double_def by (simp only: double.case r02)
  show "add [Finite (3602879701896397 / 36028797018963968)] [Finite (3602879701896397 / 18014398509481984)]
     = Inr [Finite (5404319552844596 / 18014398509481984)]"
    unfolding add_def by (simp only: list.size zip_Cons_Cons zip_Nil list.map prod.case s03 refl if_True)
  show "subtract [Finite (5404319552844596 / 18014398509481984)] [Finite (3602879701896397 / 18014398509481984)]
     = Inr [Finite (1801439850948199 / 18014398509481984)]"
    unfolding subtract_def by (simp only: list.size zip_Cons_Cons zip_Nil list.map prod.case s04 refl if_True)
  show "Finite (1801439850948199 / 18014398509481984) \<noteq> Finite (3602879701896397 / 36028797018963968)"
    by simp
qed

text \<open>
  Claim C6, amended. For float vectors \<open>v\<close> and \<open>w\<close> of equal length in which every
  sum \<^verbatim>\<open>v[i] + w[i]\<close> is exact (finite operands, nothing rounded away), \<^verbatim>\<open>add(v, w)\<close>
  returns a vector, and subtracting \<open>w\<close> from it returns \<open>v\<close> again.
\<close>

theorem roundtrip_exact:
  assumes "length v = length w"
    and "\<forall>(x, y)\<in>set (zip v w). is_double x \<and> exact_sum x y"
  shows "\<exists>s. add v w = Inr s \<and> subtract s w = Inr v"
proof -
  from assms have "map (\<lambda>(a, b). a - b) (zip (map (\<lambda>(a, b). a + b) (zip v w)) w) = v"
  proof (induction v w rule: list_induct2)
    case Nil
    show ?case by simp
  next
    case (Cons x xs y ys)
    then show ?case by (simp add: roundtrip_elem)
  qed
  with assms(1) show ?thesis by (simp add: add_def subtract_def)
qed


theorem roundtrip_exact_witness:
  "is_double (Finite 1) \<and> exact_sum (Finite 1) (Finite 2) \<and>
   is_double (Finite 2) \<and> exact_sum (Finite 2) (Finite 1) \<and>
   (\<exists>s. add [Finite 1, Finite 2] [Finite 2, Finite 1] = Inr s \<and>
        subtract s [Finite 2, Finite 1] = Inr [Finite 1, Finite 2])"
proof -
  have e: "is_double (Finite 1) \<and> exact_sum (Finite 1) (Finite 2) \<and>
           is_double (Finite 2) \<and> exact_sum (Finite 2) (Finite 1)"
    by (simp add: is_double_def exact_sum_def rnd_1 rnd_2 rnd_3)
  then have h: "\<forall>(x, y)\<in>set (zip [Finite 1, Finite 2] [Finite 2, Finite 1]).
                  is_double x \<and> exact_sum x y"
    by simp
  have l: "length [Finite 1, Finite 2] = length [Finite 2, Finite 1]" by simp
  from roundtrip_exact [OF l h] e show ?thesis by blast
qed











































lemma vector_sum_equal_lengths:
  assumes "vectors \<noteq> []" and "\<forall>v\<in>set vectors. length v = length (hd vectors)"
  shows "vector_sum vectors =
         Inr (map (\<lambda>i. sum_list (map (\<lambda>vec. vec ! i) vectors)) [0..<length (hd vectors)])"
proof -
  from assms(1) have first: "vectors ! 0 = hd vectors"
    by (simp add: hd_conv_nth)
  from assms(2) have "list_all (\<lambda>v. length v = length (hd vectors)) vectors"
    by (simp add: list_all_iff)
  with assms(1) first show ?thesis
    unfolding vector_sum_def Let_def by (simp add: py_sum_sum_list)
qed

text \<open>
  Claim C1. \<^verbatim>\<open>vector_mean([])\<close> returns no vector: it raises, and the exception is the
  \<^verbatim>\<open>ZeroDivisionError\<close> of \<^verbatim>\<open>1/n\<close> (Python's division by zero never yields NaN or an
  infinity), which is how the code signals the empty input. For a non-empty list of
  vectors of one length, \<^verbatim>\<open>vector_sum\<close> returns a vector \<open>s\<close> and \<^verbatim>\<open>vector_mean\<close>
  returns \<open>scalar_multiply (1/n) s\<close>, \<open>n\<close> being the number of vectors.
\<close>

theorem vector_mean_spec:
  "vector_mean [] = Inl ZeroDivisionError \<and>
   (vectors \<noteq> [] \<and> (\<forall>v\<in>set vectors. length v = length (hd vectors)) \<longrightarrow>
      (\<exists>s. vector_sum vectors = Inr s \<and>
           vector_mean vectors = Inr (scalar_multiply (1 / real (length vectors)) s)))"
proof (intro conjI impI)
  show "vector_mean [] = Inl ZeroDivisionError"
    by (simp add: vector_mean_def py_truediv_def)
next
  assume h: "vectors \<noteq> [] \<and> (\<forall>v\<in>set vectors. length v = length (hd vectors))"
  then have ne: "vectors \<noteq> []"
    and eq: "\<forall>v\<in>set vectors. length v = length (hd vectors)"
    by blast+
  note vs = vector_sum_equal_lengths [OF ne eq]
  from ne show "\<exists>s. vector_sum vectors = Inr s \<and>
      vector_mean vectors = Inr (scalar_multiply (1 / real (length vectors)) s)"
    unfolding vector_mean_def py_truediv_def Let_def by (simp add: vs)
qed

theorem vector_mean_spec_witness:
  "vector_mean [] = Inl ZeroDivisionError \<and>
   vector_sum [[1, 2], [3, 4], [5, 6]] = Inr [9, 12] \<and>
   vector_mean [[1, 2], [3, 4], [5, 6]] = Inr [3, 4]"
proof -
  have s: "vector_sum [[1, 2], [3, 4], [5, 6]] = Inr [9, 12]"
    by (simp add: vector_sum_def py_sum_def upt_conv_Cons)
  have "[[1, 2], [3, 4], [5, 6 :: real]] \<noteq> [] \<and>
        (\<forall>v\<in>set [[1, 2], [3, 4], [5, 6 :: real]]. length v = length (hd [[1, 2], [3, 4], [5, 6 :: real]]))"
    by simp
  with vector_mean_spec [of "[[1, 2], [3, 4], [5, 6]]"] s show ?thesis
    by (simp add: scalar_multiply_def)
qed

text \<open>
  Claim C9. The operations that return a vector keep the length: \<^verbatim>\<open>add\<close> and
  \<^verbatim>\<open>subtract\<close> on vectors of equal length, \<^verbatim>\<open>scalar_multiply\<close> for every scalar, and
  \<^verbatim>\<open>vector_sum\<close> on a non-empty list of vectors of one length, whose result is as long
  as the first vector.
\<close>

theorem vector_operations_preserve_length:
  "(length v = length w \<longrightarrow>
      (\<exists>r. add v w = Inr r \<and> length r = length v) \<and>
      (\<exists>r. subtract v w = Inr r \<and> length r = length v)) \<and>
   length (scalar_multiply s v) = length v \<and>
   (vectors \<noteq> [] \<and> (\<forall>u\<in>set vectors. length u = length (hd vectors)) \<longrightarrow>
      (\<exists>r. vector_sum vectors = Inr r \<and> length r = length (hd vectors)))"
proof (intro conjI impI)
  assume "length v = length w"
  then show "\<exists>r. add v w = Inr r \<and> length r = length v"
    by (simp add: add_def)
next
  assume "length v = length w"
  then show "\<exists>r. subtract v w = Inr r \<and> length r = length v"
    by (simp add: subtract_def)
next
  show "length (scalar_multiply s v) = length v"
    by (simp add: scalar_multiply_def)
next
  assume "vectors \<noteq> [] \<and> (\<forall>u\<in>set vectors. length u = length (hd vectors))"
  then have ne: "vectors \<noteq> []"
    and eq: "\<forall>u\<in>set vectors. length u = length (hd vectors)"
    by blast+
  show "\<exists>r. vector_sum vectors = Inr r \<and> length r = length (hd vectors)"
    by (simp add: vector_sum_equal_lengths [OF ne eq])
qed

theorem vector_operations_preserve_length_witness:
  "(\<exists>r. add [1, 2, 3 :: real] [4, 5, 6] = Inr r \<and> length r = length [1, 2, 3 :: real]) \<and>
   (\<exists>r. subtract [1, 2, 3 :: real] [4, 5, 6] = Inr r \<and> length r = length [1, 2, 3 :: real]) \<and>
   length (scalar_multiply 2 [1, 2, 3]) = length [1, 2, 3 :: real] \<and>
   (\<exists>r. vector_sum [[1, 2], [3, 4], [5, 6], [7, 8]] = Inr r \<and> length r = length [1, 2 :: real])"
  using vector_operations_preserve_length [of "[1, 2, 3]" "[4, 5, 6]" 2 "[[1, 2], [3, 4], [5, 6], [7, 8]]"]
  by simp

lemma py_index_cases:
  "py_index xs i =
     (if - int (length xs) \<le> i \<and> i < int (length xs)
      then Inr (xs ! nat (i mod int (length xs))) else Inl IndexError)"
proof -
  have "i mod int (length xs) = int (length xs) + i" if "i < 0" and "- int (length xs) \<le> i"
  proof -
    have "i mod int (length xs) = (int (length xs) + i) mod int (length xs)"
      by simp
    also from that have "\<dots> = int (length xs) + i"
      by (intro mod_pos_pos_trivial) linarith+
    finally show ?thesis .
  qed
  then show ?thesis by (auto simp add: py_index_def)
qed

lemma get_column_cases:
  "get_column A j =
     (if \<forall>r\<in>set A. - int (length r) \<le> j \<and> j < int (length r)
      then Inr (map (\<lambda>r. r ! nat (j mod int (length r))) A) else Inl IndexError)"
  by (induction A) (simp_all add: py_index_cases)

text \<open>
  Claim C2, as stated, fails: an index outside \<open>[0, row_count)\<close> need not raise. Python
  reads a negative index from the end, so \<^verbatim>\<open>get_row(A, -1)\<close> is the last row and
  \<^verbatim>\<open>get_column(A, -1)\<close> the last column; and \<^verbatim>\<open>get_column\<close> on the empty matrix
  (column count 0) visits no row and returns the empty vector for every \<open>j\<close>.
\<close>

theorem index_access_counterexample:
  "\<not> (0 \<le> (-1::int) \<and> (-1::int) < int (length [[1, 2, 3], [4, 5, 6 :: real]])) \<and>
   get_row [[1, 2, 3], [4, 5, 6]] (-1) = Inr [4, 5, 6] \<and>
   \<not> (0 \<le> (-1::int) \<and> (-1::int) < int (snd (shape [[1, 2, 3], [4, 5, 6]]))) \<and>
   get_column [[1, 2, 3], [4, 5, 6]] (-1) = Inr [3, 6] \<and>
   \<not> (0 \<le> (0::int) \<and> (0::int) < int (snd (shape []))) \<and>
   get_column [] 0 = Inr []"
  by (simp add: get_row_def py_index_def shape_def)

text \<open>
  Claim C2, amended. \<^verbatim>\<open>get_row(A, i)\<close> raises \<^verbatim>\<open>IndexError\<close> exactly when \<open>i\<close> is
  outside \<open>[-row_count, row_count)\<close>, and returns row \<open>i mod row_count\<close> otherwise;
  \<^verbatim>\<open>get_column(A, j)\<close> raises \<^verbatim>\<open>IndexError\<close> exactly when some row \<open>r\<close> of \<open>A\<close> has
  \<open>j\<close> outside \<open>[-len(r), len(r))\<close>, and returns the entries at \<open>j mod len(r)\<close>
  otherwise. On a matrix of two rows \<^verbatim>\<open>get_row(A, 99)\<close> raises \<^verbatim>\<open>IndexError\<close>.
\<close>

theorem index_access_amended:
  "get_row A i =
     (if - int (length A) \<le> i \<and> i < int (length A)
      then Inr (A ! nat (i mod int (length A))) else Inl IndexError) \<and>
   get_column A j =
     (if \<forall>r\<in>set A. - int (length r) \<le> j \<and> j < int (length r)
      then Inr (map (\<lambda>r. r ! nat (j mod int (length r))) A) else Inl IndexError) \<and>
   (length A = 2 \<longrightarrow> get_row A 99 = Inl IndexError)"
  by (simp add: get_row_def py_index_cases get_column_cases)

theorem index_access_amended_witness:
  "get_row [[1, 2, 3], [4, 5, 6]] 99 = Inl IndexError \<and>
   get_row [[1, 2, 3], [4, 5, 6]] 0 = Inr [1, 2, 3] \<and>
   get_column [[1, 2, 3], [4, 5, 6]] 0 = Inr [1, 4] \<and>
   get_column [[1, 2, 3], [4, 5, 6]] 3 = Inl IndexError"
  using index_access_amended [of "[[1, 2, 3], [4, 5, 6]]" 99 0]
    index_access_amended [of "[[1, 2, 3], [4, 5, 6]]" 0 3]
  by simp

section \<open>Properties of statistics.py\<close>









lemma foldl_max_mem: "foldl max x xs \<in> set (x # xs)" for x :: nat
proof (induction xs arbitrary: x)
  case Nil
  show ?case by simp
next
  case (Cons a xs)
  from Cons.IH [of "max x a"] show ?case by (auto simp add: max_def split: if_splits)
qed

lemma foldl_max_ge: "\<forall>y\<in>set (x # xs). y \<le> foldl max x xs" for x :: nat
proof (induction xs arbitrary: x)
  case Nil
  show ?case by simp
next
  case (Cons a xs)
  from Cons.IH [of "max x a"] show ?case by auto
qed

lemma py_max_cases:
  "c \<noteq> [] \<Longrightarrow> \<exists>m. py_max c = Inr m \<and> m \<in> set c \<and> (\<forall>y\<in>set c. y \<le> m)"
  using foldl_max_mem foldl_max_ge by (cases c) auto

lemma counter_incr_keys:
  "map fst (counter_incr c k) = (if k \<in> set (map fst c) then map fst c else map fst c @ [k])"
  by (induction c k rule: counter_incr.induct) auto

lemma counter_incr_map_of:
  "map_of (counter_incr c k) =
     (map_of c)(k \<mapsto> (case map_of c k of None \<Rightarrow> 1 | Some n \<Rightarrow> n + 1))"
  by (induction c k rule: counter_incr.induct) (auto simp add: fun_eq_iff)

lemma Counter_snoc: "Counter (xs @ [x]) = counter_incr (Counter xs) x"
  by (simp add: Counter_def)

lemma Counter_keys: "distinct (map fst (Counter xs)) \<and> set (map fst (Counter xs)) = set xs"
proof (induction xs rule: rev_induct)
  case Nil
  show ?case by (simp add: Counter_def)
next
  case (snoc x xs)
  then show ?case by (auto simp add: Counter_snoc counter_incr_keys)
qed

lemma Counter_map_of:
  "map_of (Counter xs) k = (if k \<in> set xs then Some (count_list xs k) else None)"
proof (induction xs arbitrary: k rule: rev_induct)
  case Nil
  show ?case by (simp add: Counter_def)
next
  case (snoc x xs)
  then show ?case by (simp add: Counter_snoc counter_incr_map_of)
qed

lemma Counter_entries:
  "(k, n) \<in> set (Counter xs) \<longleftrightarrow> k \<in> set xs \<and> n = count_list xs k"
proof -
  have "(k, n) \<in> set (Counter xs) \<longleftrightarrow> map_of (Counter xs) k = Some n"
    using Counter_keys [of xs] by simp
  then show ?thesis by (auto simp add: Counter_map_of)
qed

text \<open>
  Claim C10. For a non-empty list \<open>xs\<close>, \<^verbatim>\<open>mode(xs)\<close> returns a list that is not empty
  and has no repeated element; each of its elements occurs in \<open>xs\<close>, and occurs there at
  least as often as every value of \<open>xs\<close>.
\<close>

theorem mode_spec:
  assumes "xs \<noteq> []"
  shows "\<exists>m. mode xs = Inr m \<and> m \<noteq> [] \<and> distinct m \<and> set m \<subseteq> set xs \<and>
             (\<forall>y\<in>set m. \<forall>z\<in>set xs. count_list xs z \<le> count_list xs y)"
proof -
  let ?c = "Counter xs"
  from assms Counter_keys [of xs] have "?c \<noteq> []" by auto
  then have "map snd ?c \<noteq> []" by simp
  from py_max_cases [OF this] obtain M where
    M: "py_max (map snd ?c) = Inr M" and Min: "M \<in> set (map snd ?c)"
    and Mge: "\<forall>y\<in>set (map snd ?c). y \<le> M" by blast
  let ?m = "map fst (filter (\<lambda>(x_i, count). count = M) ?c)"
  from M have eq: "mode xs = Inr ?m" by (simp add: mode_def)
  from Min obtain k where k: "(k, M) \<in> set ?c" by auto
  then have "(k, M) \<in> set (filter (\<lambda>(x_i, count). count = M) ?c)" by simp
  then have "filter (\<lambda>(x_i, count). count = M) ?c \<noteq> []" by (metis empty_iff empty_set)
  then have ne: "?m \<noteq> []" by simp
  have di: "distinct ?m" using Counter_keys [of xs] by (simp add: distinct_map_filter)
  have mem: "y \<in> set xs \<and> count_list xs y = M" if "y \<in> set ?m" for y
    using that by (auto simp add: Counter_entries)
  have le: "count_list xs z \<le> M" if "z \<in> set xs" for z
  proof -
    from that have "(z, count_list xs z) \<in> set ?c" by (simp add: Counter_entries)
    then have "count_list xs z \<in> set (map snd ?c)" by force
    with Mge show ?thesis by blast
  qed
  from eq ne di mem le show ?thesis by auto
qed

theorem mode_spec_witness:
  "[1, 2, 3, 4, 4, 5, 6, 7, 8, 8, 9, 10 :: real] \<noteq> [] \<and> mode [1, 2, 3, 4, 4, 5, 6, 7, 8, 8, 9, 10] = Inr [4, 8]"
proof -
  have "mode [1, 2, 3, 4, 4, 5, 6, 7, 8, 8, 9, 10] = Inr [4, 8]"
    by (simp add: mode_def Counter_def)
  with mode_spec [of "[1, 2, 3, 4, 4, 5, 6, 7, 8, 8, 9, 10]"] show ?thesis by simp
qed

end
